theory Spec2Isabelle
  imports
    Complex_Main
    "HOL-Library.Char_ord"
    "HOL-Library.List_Lexorder"
    "HOL-Library.Product_Lexorder"
    "HOL-Library.Sublist"
    "HOL-Library.Multiset"
begin

section \<open>Values: parsed JSON, Python floats, Python exceptions\<close>

text \<open>
  \<^verbatim>\<open>fetch_economic_data.py\<close> reads two JSON web services, turns each reply into a list
  of observation dictionaries and cleans the resulting table. The embedding below follows
  the file function by function. What \<^verbatim>\<open>response.json()\<close> hands to the adapters is a
  Python object made of \<^verbatim>\<open>None\<close>, \<^verbatim>\<open>bool\<close>, \<^verbatim>\<open>int\<close>, \<^verbatim>\<open>float\<close>, \<^verbatim>\<open>str\<close>,
  \<^verbatim>\<open>list\<close> and \<^verbatim>\<open>dict\<close>; a dictionary is an association list in insertion order
  (the order in which \<^verbatim>\<open>.items()\<close> yields it), and a real Python dictionary has
  distinct keys (\<open>wf_json\<close> below).

  A float is modelled by the number it denotes: a rational, an infinity or NaN. Every
  double is such a value, so floats that arrive in a reply are represented exactly;
  only the rounding that \<^verbatim>\<open>float(str)\<close> and \<^verbatim>\<open>float(int)\<close> perform on a number that is
  not a double is left out (overflow to infinity and \<^verbatim>\<open>OverflowError\<close> are modelled).
  Strings are byte strings; the digit and white-space classes are the ASCII ones.
\<close>

datatype pyfloat = Finite rat | PosInf | NegInf | NaN

datatype json =
    JNull
  | JBool bool
  | JInt int
  | JFloat pyfloat
  | JStr string
  | JList "json list"
  | JDict "(string \<times> json) list"

datatype py_error = KeyError | TypeError | ValueError | AttributeError | OverflowError

fun wf_json :: "json \<Rightarrow> bool" where
  "wf_json (JList xs) = (\<forall>x \<in> set xs. wf_json x)"
| "wf_json (JDict kvs) = (distinct (map fst kvs) \<and> (\<forall>kv \<in> set kvs. wf_json (snd kv)))"
| "wf_json _ = True"

subsection \<open>Truth value, \<^verbatim>\<open>in\<close>, subscripting, \<^verbatim>\<open>.items()\<close>, \<^verbatim>\<open>.get()\<close>\<close>

fun truthy :: "json \<Rightarrow> bool" where
  "truthy JNull = False"
| "truthy (JBool b) = b"
| "truthy (JInt i) = (i \<noteq> 0)"
| "truthy (JFloat f) = (f \<noteq> Finite 0)"
| "truthy (JStr s) = (s \<noteq> [])"
| "truthy (JList xs) = (xs \<noteq> [])"
| "truthy (JDict kvs) = (kvs \<noteq> [])"

text \<open>\<^verbatim>\<open>s in x\<close> for a string \<open>s\<close>: key membership in a dictionary, element membership
  in a list, substring test in a string, \<^verbatim>\<open>TypeError\<close> on anything else.\<close>

fun py_in :: "string \<Rightarrow> json \<Rightarrow> py_error + bool" where
  "py_in s (JDict kvs) = Inr (s \<in> fst ` set kvs)"
| "py_in s (JList xs) = Inr (JStr s \<in> set xs)"
| "py_in s (JStr t) = Inr (sublist s t)"
| "py_in s _ = Inl TypeError"

text \<open>\<^verbatim>\<open>x[s]\<close> for a string \<open>s\<close>: a dictionary looks the key up, everything else
  refuses a string subscript.\<close>

fun py_getitem :: "json \<Rightarrow> string \<Rightarrow> py_error + json" where
  "py_getitem (JDict kvs) s = (case map_of kvs s of None \<Rightarrow> Inl KeyError | Some v \<Rightarrow> Inr v)"
| "py_getitem _ s = Inl TypeError"

fun py_items :: "json \<Rightarrow> py_error + (string \<times> json) list" where
  "py_items (JDict kvs) = Inr kvs"
| "py_items _ = Inl AttributeError"

fun py_get :: "json \<Rightarrow> string \<Rightarrow> json \<Rightarrow> py_error + json" where
  "py_get (JDict kvs) s d = Inr (case map_of kvs s of None \<Rightarrow> d | Some v \<Rightarrow> v)"
| "py_get _ s d = Inl AttributeError"

text \<open>\<^verbatim>\<open>for record in x\<close>: a list yields its elements, a dictionary its keys, a string
  its characters; the other values are not iterable.\<close>

fun py_iter :: "json \<Rightarrow> py_error + json list" where
  "py_iter (JList xs) = Inr xs"
| "py_iter (JDict kvs) = Inr (map (\<lambda>kv. JStr (fst kv)) kvs)"
| "py_iter (JStr s) = Inr (map (\<lambda>c. JStr [c]) s)"
| "py_iter _ = Inl TypeError"

subsection \<open>\<^verbatim>\<open>int()\<close> and \<^verbatim>\<open>float()\<close>\<close>

text \<open>The white space that \<^verbatim>\<open>int()\<close> and \<^verbatim>\<open>float()\<close> strip from both ends of a
  string: the space and the characters 9 to 13 (tab, line feed, vertical tab, form feed,
  carriage return).\<close>

definition is_space :: "char \<Rightarrow> bool" where
  "is_space c \<longleftrightarrow> c = CHR '' '' \<or> (9 \<le> (of_char c :: nat) \<and> (of_char c :: nat) \<le> 13)"

definition strip :: "string \<Rightarrow> string" where
  "strip s = rev (dropWhile is_space (rev (dropWhile is_space s)))"

definition is_digit :: "char \<Rightarrow> bool" where
  "is_digit c \<longleftrightarrow> 48 \<le> (of_char c :: nat) \<and> (of_char c :: nat) \<le> 57"

definition digit_val :: "char \<Rightarrow> nat" where
  "digit_val c = of_char c - 48"

text \<open>A digit part: decimal digits, single underscores allowed between two digits.\<close>

fun digitpart :: "string \<Rightarrow> nat list option" where
  "digitpart [] = None"
| "digitpart [c] = (if is_digit c then Some [digit_val c] else None)"
| "digitpart (c # d # cs) =
     (if \<not> is_digit c then None
      else if d = CHR ''_'' then map_option ((#) (digit_val c)) (digitpart cs)
      else map_option ((#) (digit_val c)) (digitpart (d # cs)))"

definition nat_of_digits :: "nat list \<Rightarrow> nat" where
  "nat_of_digits ds = foldl (\<lambda>a d. 10 * a + d) 0 ds"

text \<open>An optional sign in front of the rest of a numeral.\<close>

fun split_sign :: "string \<Rightarrow> bool \<times> string" where
  "split_sign [] = (False, [])"
| "split_sign (c # cs) =
     (if c = CHR ''-'' then (True, cs) else if c = CHR ''+'' then (False, cs) else (False, c # cs))"

definition int_of_str :: "string \<Rightarrow> int option" where
  "int_of_str s =
     (case split_sign (strip s) of (neg, body) \<Rightarrow>
        (case digitpart body of
           None \<Rightarrow> None
         | Some ds \<Rightarrow> Some (if neg then - int (nat_of_digits ds) else int (nat_of_digits ds))))"

text \<open>The largest magnitude that still rounds to a finite double is just below
  \<open>2^1024 - 2^970\<close>.\<close>

definition dbl_limit :: rat where
  "dbl_limit = 2 ^ 1024 - 2 ^ 970"

definition float_of_rat :: "rat \<Rightarrow> pyfloat" where
  "float_of_rat q = (if dbl_limit \<le> q then PosInf else if q \<le> - dbl_limit then NegInf else Finite q)"

definition lower :: "string \<Rightarrow> string" where
  "lower s = map (\<lambda>c. if 65 \<le> (of_char c :: nat) \<and> (of_char c :: nat) \<le> 90
                        then char_of ((of_char c :: nat) + 32) else c) s"

text \<open>The mantissa of a decimal numeral: \<^verbatim>\<open>12\<close>, \<^verbatim>\<open>12.\<close>, \<^verbatim>\<open>12.5\<close> or \<^verbatim>\<open>.5\<close>, as the
  digits before and after the point.\<close>

definition mantissa :: "string \<Rightarrow> (nat list \<times> nat list) option" where
  "mantissa m =
     (let ip = takeWhile (\<lambda>c. c \<noteq> CHR ''.'') m; rest = dropWhile (\<lambda>c. c \<noteq> CHR ''.'') m
      in if rest = [] then map_option (\<lambda>ds. (ds, [])) (digitpart ip)
         else let fp = tl rest
              in if ip = [] then map_option (\<lambda>fs. ([], fs)) (digitpart fp)
                 else if fp = [] then map_option (\<lambda>ds. (ds, [])) (digitpart ip)
                 else (case (digitpart ip, digitpart fp) of
                         (Some ds, Some fs) \<Rightarrow> Some (ds, fs)
                       | _ \<Rightarrow> None))"

definition is_e :: "char \<Rightarrow> bool" where
  "is_e c \<longleftrightarrow> c = CHR ''e'' \<or> c = CHR ''E''"

definition decimal :: "string \<Rightarrow> rat option" where
  "decimal body =
     (let m = takeWhile (\<lambda>c. \<not> is_e c) body; rest = dropWhile (\<lambda>c. \<not> is_e c) body
      in case mantissa m of
           None \<Rightarrow> None
         | Some (ds, fs) \<Rightarrow>
             let digits = of_nat (nat_of_digits (ds @ fs)) :: rat
             in if rest = [] then Some (digits / 10 ^ length fs)
                else (case split_sign (tl rest) of (eneg, ebody) \<Rightarrow>
                        (case digitpart ebody of
                           None \<Rightarrow> None
                         | Some es \<Rightarrow>
                             Some (if eneg then digits / 10 ^ (length fs + nat_of_digits es)
                                   else digits * 10 ^ nat_of_digits es / 10 ^ length fs))))"

definition float_of_str :: "string \<Rightarrow> pyfloat option" where
  "float_of_str s =
     (case split_sign (strip s) of (neg, body) \<Rightarrow>
        if lower body = ''inf'' \<or> lower body = ''infinity'' then Some (if neg then NegInf else PosInf)
        else if lower body = ''nan'' then Some NaN
        else (case decimal body of
                None \<Rightarrow> None
              | Some q \<Rightarrow> Some (float_of_rat (if neg then - q else q))))"

text \<open>\<^verbatim>\<open>int(x)\<close>: a string is parsed, a float is truncated towards zero (NaN is a
  \<^verbatim>\<open>ValueError\<close>, an infinity an \<^verbatim>\<open>OverflowError\<close>), a bool is 0 or 1.\<close>

fun py_int :: "json \<Rightarrow> py_error + int" where
  "py_int (JStr s) = (case int_of_str s of None \<Rightarrow> Inl ValueError | Some i \<Rightarrow> Inr i)"
| "py_int (JInt i) = Inr i"
| "py_int (JBool b) = Inr (if b then 1 else 0)"
| "py_int (JFloat (Finite q)) = Inr (if 0 \<le> q then \<lfloor>q\<rfloor> else \<lceil>q\<rceil>)"
| "py_int (JFloat NaN) = Inl ValueError"
| "py_int (JFloat _) = Inl OverflowError"
| "py_int _ = Inl TypeError"

text \<open>\<^verbatim>\<open>float(x)\<close>: a string is parsed, an int converted (\<^verbatim>\<open>OverflowError\<close> when it
  is too large for a double), a float returned as it is.\<close>

fun py_float :: "json \<Rightarrow> py_error + pyfloat" where
  "py_float (JStr s) = (case float_of_str s of None \<Rightarrow> Inl ValueError | Some f \<Rightarrow> Inr f)"
| "py_float (JInt i) =
     (if dbl_limit \<le> \<bar>of_int i\<bar> then Inl OverflowError else Inr (Finite (of_int i)))"
| "py_float (JBool b) = Inr (Finite (if b then 1 else 0))"
| "py_float (JFloat f) = Inr f"
| "py_float _ = Inl TypeError"

section \<open>Configuration\<close>

definition IMF_BASE_URL :: string where
  "IMF_BASE_URL = ''https://www.imf.org/external/datamapper/api/v1''"

definition WB_BASE_URL :: string where
  "WB_BASE_URL = ''https://api.worldbank.org/v2''"

definition START_YEAR :: int where
  "START_YEAR = 2018"

definition END_YEAR :: int where
  "END_YEAR = 2024"

text \<open>The three tables are dictionaries of dictionaries with fixed inner keys; an
  entry is the pair of its two inner values: (name, region) for a country and
  (name, description) for an indicator.\<close>

definition COUNTRIES :: "(string \<times> string \<times> string) list" where
  "COUNTRIES =
    [(''BRA'', ''Brazil'', ''Latin America''),
     (''MEX'', ''Mexico'', ''Latin America''),
     (''ARG'', ''Argentina'', ''Latin America''),
     (''COL'', ''Colombia'', ''Latin America''),
     (''CHL'', ''Chile'', ''Latin America''),
     (''PER'', ''Peru'', ''Latin America''),
     (''ZAF'', ''South Africa'', ''Africa''),
     (''NGA'', ''Nigeria'', ''Africa''),
     (''KEN'', ''Kenya'', ''Africa''),
     (''EGY'', ''Egypt'', ''Africa''),
     (''GHA'', ''Ghana'', ''Africa''),
     (''ETH'', ''Ethiopia'', ''Africa''),
     (''IND'', ''India'', ''Asia''),
     (''IDN'', ''Indonesia'', ''Asia''),
     (''PHL'', ''Philippines'', ''Asia''),
     (''VNM'', ''Vietnam'', ''Asia''),
     (''BGD'', ''Bangladesh'', ''Asia''),
     (''THA'', ''Thailand'', ''Asia''),
     (''MYS'', ''Malaysia'', ''Asia''),
     (''POL'', ''Poland'', ''Europe''),
     (''ROU'', ''Romania'', ''Europe''),
     (''TUR'', ''Turkey'', ''Europe''),
     (''UKR'', ''Ukraine'', ''Europe''),
     (''JOR'', ''Jordan'', ''Middle East''),
     (''LBN'', ''Lebanon'', ''Middle East'')]"

definition IMF_INDICATORS :: "(string \<times> string \<times> string) list" where
  "IMF_INDICATORS =
    [(''NGDP_RPCH'', ''GDP Growth Rate (Annual %)'',
        ''Real GDP growth rate, annual percentage change''),
     (''PCPIPCH'', ''Inflation Rate (CPI)'',
        ''Consumer Price Index, annual percentage change''),
     (''GGXWDG_NGDP'', ''Government Debt (% of GDP)'',
        ''General government gross debt as percentage of GDP''),
     (''GGXCNL_NGDP'', ''Fiscal Balance (% of GDP)'',
        ''General government net lending/borrowing as percentage of GDP''),
     (''GGR_NGDP'', ''Government Revenue (% of GDP)'',
        ''General government revenue as percentage of GDP''),
     (''GGX_NGDP'', ''Government Expenditure (% of GDP)'',
        ''General government total expenditure as percentage of GDP''),
     (''BCA_NGDPD'', ''Current Account Balance (% of GDP)'',
        ''Current account balance as percentage of GDP''),
     (''LUR'', ''Unemployment Rate'', ''Unemployment rate, percent'')]"

definition WB_INDICATORS :: "(string \<times> string \<times> string) list" where
  "WB_INDICATORS =
    [(''SE.XPD.TOTL.GD.ZS'', ''Education Expenditure (% of GDP)'',
        ''Government expenditure on education, total (% of GDP)''),
     (''IS.RRS.TOTL.KM'', ''Railway Infrastructure'', ''Railways, total (route-km)''),
     (''SP.POP.TOTL'', ''Population'', ''Population, total''),
     (''NY.GNP.PCAP.CD'', ''GNI per Capita'', ''GNI per capita, Atlas method (current US$)''),
     (''IE.PPI.ENGY.CD'', ''Infrastructure Investment (Energy)'',
        ''Investment in energy with private participation (current US$)'')]"

text \<open>The eight keys of the dictionaries the adapters append to \<^verbatim>\<open>data_points\<close>.\<close>

record ('t, 'y, 'v) observation =
  Country_Code :: 't
  Country :: 't
  Region :: 't
  Year :: 'y
  Indicator_Name :: 't
  Indicator_Code :: 't
  Value :: 'v
  Source :: 't

text \<open>In a dictionary built by an adapter the texts are strings, the year is an int
  and the value is a float or \<^verbatim>\<open>None\<close>.\<close>

type_synonym data_point = "(string, int, pyfloat option) observation"

section \<open>The request helper\<close>

text \<open>
  The network is a parameter: \<open>net url params k\<close> is what attempt number \<open>k\<close> of a
  request to \<open>url\<close> with query \<open>params\<close> does, either one of the \<^verbatim>\<open>requests\<close>
  exceptions that \<^verbatim>\<open>make_request\<close> catches or the parsed body. Python's \<^verbatim>\<open>None\<close> is
  \<open>JNull\<close>, so the "no data" result and a body that is the JSON \<^verbatim>\<open>null\<close> are the same
  value, as they are for the callers. Printing and the sleep between two attempts are
  not modelled.
\<close>

datatype outcome = RequestException | Response json

type_synonym network = "string \<Rightarrow> (string \<times> string) list \<Rightarrow> nat \<Rightarrow> outcome"

fun attempts :: "(nat \<Rightarrow> outcome) \<Rightarrow> nat \<Rightarrow> nat list \<Rightarrow> json" where
  "attempts get max_retries [] = JNull"
| "attempts get max_retries (attempt # rest) =
     (case get attempt of
        Response body \<Rightarrow> body
      | RequestException \<Rightarrow>
          if int attempt < int max_retries - 1 then attempts get max_retries rest else JNull)"

definition make_request :: "network \<Rightarrow> string \<Rightarrow> (string \<times> string) list \<Rightarrow> nat \<Rightarrow> json" where
  "make_request net url params max_retries = attempts (net url params) max_retries [0..<max_retries]"

section \<open>The fund adapter\<close>

fun join :: "string \<Rightarrow> string list \<Rightarrow> string" where
  "join sep [] = []"
| "join sep [x] = x"
| "join sep (x # y # ys) = x @ sep @ join sep (y # ys)"

function str_nat :: "nat \<Rightarrow> string" where
  "str_nat n = (if n < 10 then [char_of (48 + n)] else str_nat (n div 10) @ [char_of (48 + n mod 10)])"
  by pat_completeness auto
termination
  by (relation "measure id") auto

definition str_int :: "int \<Rightarrow> string" where
  "str_int i = (if i < 0 then CHR ''-'' # str_nat (nat (- i)) else str_nat (nat i))"

text \<open>The dictionary literal of lines 202 to 211, evaluated left to right: the two
  table lookups come before \<^verbatim>\<open>float(value)\<close>.\<close>

definition imf_record :: "string \<Rightarrow> string \<Rightarrow> int \<Rightarrow> json \<Rightarrow> py_error + data_point" where
  "imf_record indicator_code country_code year value =
     (case map_of COUNTRIES country_code of
        None \<Rightarrow> Inl KeyError
      | Some country \<Rightarrow>
          (case map_of IMF_INDICATORS indicator_code of
             None \<Rightarrow> Inl KeyError
           | Some indicator \<Rightarrow>
               (case (if value \<noteq> JStr [] then map_sum id Some (py_float value) else Inr None) of
                  Inl e \<Rightarrow> Inl e
                | Inr v \<Rightarrow>
                    Inr \<lparr>Country_Code = country_code, Country = fst country,
                         Region = snd country, Year = year, Indicator_Name = fst indicator,
                         Indicator_Code = indicator_code, Value = v, Source = ''IMF''\<rparr>)))"

text \<open>The body of the inner \<^verbatim>\<open>try\<close>: nothing, or the record to append.\<close>

definition imf_point :: "string \<Rightarrow> string \<Rightarrow> string \<Rightarrow> json \<Rightarrow> py_error + data_point option" where
  "imf_point indicator_code country_code year_str value =
     (case py_int (JStr year_str) of
        Inl e \<Rightarrow> Inl e
      | Inr year \<Rightarrow>
          if START_YEAR \<le> year \<and> year \<le> END_YEAR \<and> value \<noteq> JNull
          then map_sum id Some (imf_record indicator_code country_code year value)
          else Inr None)"

text \<open>
  The loops return the records they append, in order, together with the exception that
  ended them, if any: \<^verbatim>\<open>data_points\<close> is only appended to and keeps what it holds when
  an exception leaves the loops. The inner \<^verbatim>\<open>except (ValueError, TypeError)\<close> goes on
  with the next year; any other exception leaves the loop.
\<close>

fun imf_years :: "string \<Rightarrow> string \<Rightarrow> (string \<times> json) list \<Rightarrow> py_error option \<times> data_point list" where
  "imf_years indicator_code country_code [] = (None, [])"
| "imf_years indicator_code country_code ((year_str, value) # rest) =
     (case imf_point indicator_code country_code year_str value of
        Inl e \<Rightarrow>
          if e = ValueError \<or> e = TypeError then imf_years indicator_code country_code rest
          else (Some e, [])
      | Inr None \<Rightarrow> imf_years indicator_code country_code rest
      | Inr (Some r) \<Rightarrow>
          (case imf_years indicator_code country_code rest of (e, rs) \<Rightarrow> (e, r # rs)))"

fun imf_countries :: "string \<Rightarrow> json \<Rightarrow> string list \<Rightarrow> py_error option \<times> data_point list" where
  "imf_countries indicator_code indicator_data [] = (None, [])"
| "imf_countries indicator_code indicator_data (country_code # rest) =
     (case py_in country_code indicator_data of
        Inl e \<Rightarrow> (Some e, [])
      | Inr False \<Rightarrow> imf_countries indicator_code indicator_data rest
      | Inr True \<Rightarrow>
          (case py_getitem indicator_data country_code of
             Inl e \<Rightarrow> (Some e, [])
           | Inr country_data \<Rightarrow>
               (case py_items country_data of
                  Inl e \<Rightarrow> (Some e, [])
                | Inr items \<Rightarrow>
                    (case imf_years indicator_code country_code items of
                       (Some e, rs) \<Rightarrow> (Some e, rs)
                     | (None, rs) \<Rightarrow>
                         (case imf_countries indicator_code indicator_data rest of
                            (e, rs') \<Rightarrow> (e, rs @ rs'))))))"

text \<open>The body of the outer \<^verbatim>\<open>try\<close> (lines 190 to 213).\<close>

definition imf_try :: "string \<Rightarrow> string list \<Rightarrow> json \<Rightarrow> py_error option \<times> data_point list" where
  "imf_try indicator_code country_codes response =
     (case py_in ''values'' response of
        Inl e \<Rightarrow> (Some e, [])
      | Inr False \<Rightarrow> (None, [])
      | Inr True \<Rightarrow>
          (case py_getitem response ''values'' of
             Inl e \<Rightarrow> (Some e, [])
           | Inr vals \<Rightarrow>
               (case py_in indicator_code vals of
                  Inl e \<Rightarrow> (Some e, [])
                | Inr False \<Rightarrow> (None, [])
                | Inr True \<Rightarrow>
                    (case py_getitem vals indicator_code of
                       Inl e \<Rightarrow> (Some e, [])
                     | Inr indicator_data \<Rightarrow>
                         imf_countries indicator_code indicator_data country_codes))))"

text \<open>The outer \<^verbatim>\<open>except (KeyError, TypeError)\<close> prints and falls through to the
  \<^verbatim>\<open>return\<close>; any other exception leaves the function.\<close>

definition imf_parse :: "string \<Rightarrow> string list \<Rightarrow> json \<Rightarrow> py_error + data_point list" where
  "imf_parse indicator_code country_codes response =
     (case imf_try indicator_code country_codes response of
        (None, data_points) \<Rightarrow> Inr data_points
      | (Some e, data_points) \<Rightarrow>
          if e = KeyError \<or> e = TypeError then Inr data_points else Inl e)"

text \<open>Lines 175 to 178: one request for all countries and all years.\<close>

definition imf_url :: "string \<Rightarrow> string list \<Rightarrow> string" where
  "imf_url indicator_code country_codes =
     (let countries_str = join '','' country_codes
      in IMF_BASE_URL @ ''/'' @ indicator_code @ ''/'' @ countries_str)"

definition imf_params :: "(string \<times> string) list" where
  "imf_params =
     (let periods = join '','' (map str_int [START_YEAR..END_YEAR])
      in [(''periods'', periods)])"

text \<open>Line 180 looks the indicator up before the request is made: an indicator that
  is not in the table is a \<^verbatim>\<open>KeyError\<close> outside every \<^verbatim>\<open>try\<close>.\<close>

definition get_imf_data :: "network \<Rightarrow> string \<Rightarrow> string list \<Rightarrow> py_error + data_point list" where
  "get_imf_data net indicator_code country_codes =
     (case map_of IMF_INDICATORS indicator_code of
        None \<Rightarrow> Inl KeyError
      | Some indicator \<Rightarrow>
          (let response = make_request net (imf_url indicator_code country_codes) imf_params 3
           in if \<not> truthy response then Inr []
              else imf_parse indicator_code country_codes response))"

section \<open>The development-bank adapter\<close>

text \<open>\<^verbatim>\<open>x in d\<close> for a dictionary \<open>d\<close> with string keys: a list or a dictionary is not
  hashable, a string is looked up, no other value equals a string key.\<close>

fun py_key_in :: "json \<Rightarrow> (string \<times> 'a) list \<Rightarrow> py_error + bool" where
  "py_key_in (JStr s) d = Inr (s \<in> fst ` set d)"
| "py_key_in (JList xs) d = Inl TypeError"
| "py_key_in (JDict kvs) d = Inl TypeError"
| "py_key_in _ d = Inr False"

text \<open>The body of the inner \<^verbatim>\<open>try\<close> (lines 262 to 273).\<close>

definition wb_inner :: "string \<Rightarrow> string \<Rightarrow> json \<Rightarrow> json \<Rightarrow> py_error + data_point option" where
  "wb_inner indicator_code country_code year value =
     (case py_int year of
        Inl e \<Rightarrow> Inl e
      | Inr year_int \<Rightarrow>
          if START_YEAR \<le> year_int \<and> year_int \<le> END_YEAR then
            (case map_of COUNTRIES country_code of
               None \<Rightarrow> Inl KeyError
             | Some country \<Rightarrow>
                 (case map_of WB_INDICATORS indicator_code of
                    None \<Rightarrow> Inl KeyError
                  | Some indicator \<Rightarrow>
                      (case py_float value of
                         Inl e \<Rightarrow> Inl e
                       | Inr v \<Rightarrow>
                           Inr (Some \<lparr>Country_Code = country_code, Country = fst country,
                                  Region = snd country, Year = year_int,
                                  Indicator_Name = fst indicator,
                                  Indicator_Code = indicator_code, Value = Some v,
                                  Source = ''World Bank''\<rparr>))))
          else Inr None)"

text \<open>The body of the outer \<^verbatim>\<open>try\<close> (lines 255 to 275); the inner
  \<^verbatim>\<open>except (ValueError, TypeError): continue\<close> is the second case of the last split.\<close>

definition wb_outer :: "string \<Rightarrow> json \<Rightarrow> py_error + data_point option" where
  "wb_outer indicator_code record =
     (case py_get record ''countryiso3code'' (JStr []) of
        Inl e \<Rightarrow> Inl e
      | Inr country_code \<Rightarrow>
          (case py_key_in country_code COUNTRIES of
             Inl e \<Rightarrow> Inl e
           | Inr False \<Rightarrow> Inr None
           | Inr True \<Rightarrow>
               (case py_get record ''date'' (JStr []) of
                  Inl e \<Rightarrow> Inl e
                | Inr year \<Rightarrow>
                    (case py_get record ''value'' JNull of
                       Inl e \<Rightarrow> Inl e
                     | Inr value \<Rightarrow>
                         if truthy year \<and> value \<noteq> JNull then
                           (case wb_inner indicator_code
                                   (case country_code of JStr s \<Rightarrow> s | _ \<Rightarrow> []) year value of
                              Inl e \<Rightarrow> if e = ValueError \<or> e = TypeError then Inr None else Inl e
                            | Inr p \<Rightarrow> Inr p)
                         else Inr None))))"

text \<open>One round of the \<^verbatim>\<open>for\<close> loop: the outer \<^verbatim>\<open>except (KeyError, TypeError)\<close> goes
  on with the next record, any other exception leaves the function.\<close>

definition wb_record :: "string \<Rightarrow> json \<Rightarrow> py_error + data_point option" where
  "wb_record indicator_code record =
     (case wb_outer indicator_code record of
        Inl e \<Rightarrow> if e = KeyError \<or> e = TypeError then Inr None else Inl e
      | Inr p \<Rightarrow> Inr p)"

fun wb_loop :: "string \<Rightarrow> json list \<Rightarrow> py_error + data_point list" where
  "wb_loop indicator_code [] = Inr []"
| "wb_loop indicator_code (record # rest) =
     (case wb_record indicator_code record of
        Inl e \<Rightarrow> Inl e
      | Inr p \<Rightarrow>
          (case wb_loop indicator_code rest of
             Inl e \<Rightarrow> Inl e
           | Inr rs \<Rightarrow> Inr ((case p of None \<Rightarrow> [] | Some r \<Rightarrow> [r]) @ rs)))"

text \<open>Lines 247 to 279, from the test of the response on.\<close>

definition wb_parse :: "string \<Rightarrow> json \<Rightarrow> py_error + data_point list" where
  "wb_parse indicator_code response =
     (case response of
        JList items \<Rightarrow>
          if items = [] \<or> length items < 2 then Inr []
          else (case py_iter (items ! 1) of
                  Inl e \<Rightarrow> Inl e
                | Inr data \<Rightarrow> wb_loop indicator_code data)
      | _ \<Rightarrow> Inr [])"

text \<open>Lines 234 to 241.\<close>

definition wb_url :: "string \<Rightarrow> string list \<Rightarrow> string" where
  "wb_url indicator_code country_codes =
     (let countries_str = join '';'' country_codes
      in WB_BASE_URL @ ''/country/'' @ countries_str @ ''/indicator/'' @ indicator_code)"

definition wb_params :: "(string \<times> string) list" where
  "wb_params =
     [(''format'', ''json''),
      (''date'', str_int START_YEAR @ '':'' @ str_int END_YEAR),
      (''per_page'', ''10000'')]"

definition get_world_bank_data :: "network \<Rightarrow> string \<Rightarrow> string list \<Rightarrow> py_error + data_point list" where
  "get_world_bank_data net indicator_code country_codes =
     (case map_of WB_INDICATORS indicator_code of
        None \<Rightarrow> Inl KeyError
      | Some indicator \<Rightarrow>
          wb_parse indicator_code (make_request net (wb_url indicator_code country_codes) wb_params 3))"

section \<open>The fetching loops of the orchestrator\<close>

text \<open>Lines 351 to 353 and 360 to 362: one adapter call per indicator, the results
  appended to \<^verbatim>\<open>all_data\<close>. An exception that leaves an adapter leaves \<^verbatim>\<open>main\<close>.\<close>

fun fetch_all :: "(string \<Rightarrow> py_error + data_point list) \<Rightarrow> string list \<Rightarrow> py_error + data_point list" where
  "fetch_all adapter [] = Inr []"
| "fetch_all adapter (indicator_code # rest) =
     (case adapter indicator_code of
        Inl e \<Rightarrow> Inl e
      | Inr data \<Rightarrow>
          (case fetch_all adapter rest of
             Inl e \<Rightarrow> Inl e
           | Inr all_data \<Rightarrow> Inr (data @ all_data)))"

definition fetch :: "network \<Rightarrow> py_error + data_point list" where
  "fetch net =
     (let country_codes = map fst COUNTRIES
      in case fetch_all (\<lambda>i. get_imf_data net i country_codes) (map fst IMF_INDICATORS) of
           Inl e \<Rightarrow> Inl e
         | Inr imf_data \<Rightarrow>
             (case fetch_all (\<lambda>i. get_world_bank_data net i country_codes) (map fst WB_INDICATORS) of
                Inl e \<Rightarrow> Inl e
              | Inr wb_data \<Rightarrow> Inr (imf_data @ wb_data)))"

section \<open>The cleaner\<close>

text \<open>
  A dataframe that has the eight columns is the list of its rows, in index order. The text columns hold a string or
  a missing value; a cell of the columns \<^verbatim>\<open>Year\<close> and \<^verbatim>\<open>Value\<close> is missing, an integer,
  a float or a string. \<^verbatim>\<open>None\<close>, NaN and \<^verbatim>\<open><NA>\<close> all count as missing for pandas;
  \<open>CNull\<close> stands for them, and \<open>isna\<close> also accepts a float cell that holds NaN.
  The conversions work cell by cell: the dtype pandas picks for a whole column is not
  modelled. \<^verbatim>\<open>to_numeric\<close> reads a string with the grammar of \<^verbatim>\<open>int()\<close> and of
  \<^verbatim>\<open>float()\<close> above.
\<close>

datatype cell = CNull | CInt int | CFloat pyfloat | CStr string

type_synonym row = "(string option, cell, cell) observation"

text \<open>One dictionary of \<^verbatim>\<open>all_data\<close> as a row of the dataframe.\<close>

definition as_row :: "data_point \<Rightarrow> row" where
  "as_row p =
     \<lparr>Country_Code = Some (Country_Code p), Country = Some (Country p),
      Region = Some (Region p), Year = CInt (Year p),
      Indicator_Name = Some (Indicator_Name p),
      Indicator_Code = Some (Indicator_Code p),
      Value = (case Value p of None \<Rightarrow> CNull | Some f \<Rightarrow> CFloat f),
      Source = Some (Source p)\<rparr>"

text \<open>
  \<^verbatim>\<open>pd.DataFrame(all_data)\<close>. The columns of the frame are the keys of the
  dictionaries, so the frame of the empty list has no columns at all: it is \<open>None\<close>
  here, and it is not a table \<open>clean_data\<close> below can take (on it line 295 raises
  \<^verbatim>\<open>KeyError\<close>; \<^verbatim>\<open>main\<close> returns at line 370 before it gets there). A list of rows
  always stands for a frame that has the eight columns.
\<close>

definition DataFrame :: "data_point list \<Rightarrow> row list option" where
  "DataFrame all_data = (if all_data = [] then None else Some (map as_row all_data))"

fun isna :: "cell \<Rightarrow> bool" where
  "isna CNull = True"
| "isna (CFloat NaN) = True"
| "isna _ = False"

definition dropna :: "row list \<Rightarrow> row list" where
  "dropna df = filter (\<lambda>r. Country r \<noteq> None \<and> \<not> isna (Year r) \<and> Indicator_Name r \<noteq> None) df"

text \<open>\<^verbatim>\<open>pd.to_numeric(..., errors="coerce")\<close> on one cell: a number stays, a string is
  read as a number, and what cannot be read becomes missing.\<close>

fun to_numeric :: "cell \<Rightarrow> cell" where
  "to_numeric CNull = CNull"
| "to_numeric (CInt i) = CInt i"
| "to_numeric (CFloat f) = (if f = NaN then CNull else CFloat f)"
| "to_numeric (CStr s) =
     (case int_of_str s of
        Some i \<Rightarrow> CInt i
      | None \<Rightarrow>
          (case float_of_str s of
             None \<Rightarrow> CNull
           | Some f \<Rightarrow> if f = NaN then CNull else CFloat f))"

text \<open>\<^verbatim>\<open>.astype("Int64")\<close> on one numeric cell: a missing value stays missing, an
  integral value in the 64-bit range is kept, anything else cannot be cast safely.\<close>

definition int64 :: "int \<Rightarrow> py_error + cell" where
  "int64 i = (if - (2 ^ 63) \<le> i \<and> i < 2 ^ 63 then Inr (CInt i) else Inl TypeError)"

fun astype_Int64 :: "cell \<Rightarrow> py_error + cell" where
  "astype_Int64 CNull = Inr CNull"
| "astype_Int64 (CInt i) = int64 i"
| "astype_Int64 (CFloat (Finite q)) = (if of_int \<lfloor>q\<rfloor> = q then int64 \<lfloor>q\<rfloor> else Inl TypeError)"
| "astype_Int64 (CFloat NaN) = Inr CNull"
| "astype_Int64 _ = Inl TypeError"

text \<open>Line 298, row by row: the first cell that cannot be cast raises.\<close>

fun coerce_years :: "row list \<Rightarrow> py_error + row list" where
  "coerce_years [] = Inr []"
| "coerce_years (r # rs) =
     (case astype_Int64 (to_numeric (Year r)) of
        Inl e \<Rightarrow> Inl e
      | Inr y \<Rightarrow>
          (case coerce_years rs of
             Inl e \<Rightarrow> Inl e
           | Inr rs' \<Rightarrow> Inr (r\<lparr>Year := y\<rparr> # rs')))"

text \<open>The key of \<^verbatim>\<open>sort_values(["Country", "Year", "Indicator_Name"])\<close>: ascending,
  missing values last (the default \<^verbatim>\<open>na_position\<close>), hence the flag in front of each
  component. Strings compare byte by byte.\<close>

definition text_key :: "string option \<Rightarrow> bool \<times> string" where
  "text_key t = (case t of None \<Rightarrow> (True, []) | Some s \<Rightarrow> (False, s))"

definition year_key :: "cell \<Rightarrow> bool \<times> int" where
  "year_key y = (case y of CInt i \<Rightarrow> (False, i) | _ \<Rightarrow> (True, 0))"

definition sort_tuple :: "row \<Rightarrow> (bool \<times> string) \<times> (bool \<times> int) \<times> (bool \<times> string)" where
  "sort_tuple r = (text_key (Country r), year_key (Year r), text_key (Indicator_Name r))"

definition sort_values :: "row list \<Rightarrow> row list" where
  "sort_values df = sort_key sort_tuple df"

text \<open>\<^verbatim>\<open>reset_index(drop=True)\<close> renumbers the rows; the list has no other index.\<close>

definition clean_data :: "row list \<Rightarrow> py_error + row list" where
  "clean_data df =
     (let df_clean = dropna df
      in case coerce_years df_clean of
           Inl e \<Rightarrow> Inl e
         | Inr df_years \<Rightarrow>
             Inr (sort_values (map (\<lambda>r. r\<lparr>Value := to_numeric (Value r)\<rparr>) df_years)))"

section \<open>Vocabulary of the properties\<close>

text \<open>The (year, value) items a fund response holds for one country, along the path
  \<^verbatim>\<open>response["values"][indicator_code][country_code]\<close>; empty when the path does not
  exist.\<close>

definition imf_entries :: "string \<Rightarrow> json \<Rightarrow> string \<Rightarrow> (string \<times> json) list" where
  "imf_entries indicator_code response country_code =
     (case py_getitem response ''values'' of
        Inl e \<Rightarrow> []
      | Inr vals \<Rightarrow>
          (case py_getitem vals indicator_code of
             Inl e \<Rightarrow> []
           | Inr indicator_data \<Rightarrow>
               (case py_getitem indicator_data country_code of
                  Inl e \<Rightarrow> []
                | Inr country_data \<Rightarrow>
                    (case py_items country_data of Inl e \<Rightarrow> [] | Inr items \<Rightarrow> items))))"

text \<open>Two networks: one that answers every attempt with the same body, one on which
  every attempt fails.\<close>

definition net_always :: "json \<Rightarrow> network" where
  "net_always body = (\<lambda>url params attempt. Response body)"

definition net_down :: network where
  "net_down = (\<lambda>url params attempt. RequestException)"

text \<open>\<^verbatim>\<open>{"values": {"LUR": {"BRA": {"2019": 11.9, "2025": 8.0}}}}\<close>\<close>

definition example_imf_response :: json where
  "example_imf_response =
     JDict [(''values'', JDict [(''LUR'', JDict [(''BRA'',
       JDict [(''2019'', JFloat (Finite (119 / 10))), (''2025'', JFloat (Finite 8))])])])]"




text \<open>\<^verbatim>\<open>[meta, [{"countryiso3code": "BRA", "date": "2020", "value": "5.2"}]]\<close>\<close>

definition example_wb_response :: "json \<Rightarrow> json" where
  "example_wb_response meta =
     JList [meta, JList [JDict [(''countryiso3code'', JStr ''BRA''), (''date'', JStr ''2020''),
                                (''value'', JStr ''5.2'')]]]"

text \<open>\<^verbatim>\<open>{"countryiso3code": "BRA", "date": "2020", "value": null}\<close>\<close>

definition null_value_record :: json where
  "null_value_record =
     JDict [(''countryiso3code'', JStr ''BRA''), (''date'', JStr ''2020''), (''value'', JNull)]"

text \<open>The rows \<open>dropna\<close> keeps, and what the two conversions make of such a row when
  the cast of its year does not raise.\<close>

definition kept :: "row \<Rightarrow> bool" where
  "kept r \<longleftrightarrow> Country r \<noteq> None \<and> \<not> isna (Year r) \<and> Indicator_Name r \<noteq> None"

definition clean_row :: "row \<Rightarrow> row" where
  "clean_row r =
     r\<lparr>Year := (case astype_Int64 (to_numeric (Year r)) of Inl e \<Rightarrow> CNull | Inr y \<Rightarrow> y),
       Value := to_numeric (Value r)\<rparr>"

text \<open>The tuple (country, year, indicator name) of a row in which none of the three is
  missing.\<close>

definition plain_tuple :: "row \<Rightarrow> (string \<times> int \<times> string) option" where
  "plain_tuple r =
     (case (Country r, Year r, Indicator_Name r) of
        (Some c, CInt y, Some n) \<Rightarrow> Some (c, y, n)
      | _ \<Rightarrow> None)"

text \<open>Example rows: population of Brazil and of Argentina, with a year and a value of
  one's choice.\<close>

definition brazil_row :: "cell \<Rightarrow> cell \<Rightarrow> row" where
  "brazil_row y v =
     \<lparr>Country_Code = Some ''BRA'', Country = Some ''Brazil'', Region = Some ''Latin America'',
      Year = y, Indicator_Name = Some ''Population'', Indicator_Code = Some ''SP.POP.TOTL'',
      Value = v, Source = Some ''World Bank''\<rparr>"

definition argentina_row :: "cell \<Rightarrow> cell \<Rightarrow> row" where
  "argentina_row y v =
     \<lparr>Country_Code = Some ''ARG'', Country = Some ''Argentina'', Region = Some ''Latin America'',
      Year = y, Indicator_Name = Some ''Population'', Indicator_Code = Some ''SP.POP.TOTL'',
      Value = v, Source = Some ''World Bank''\<rparr>"




section \<open>Auxiliary facts\<close>

lemma py_key_in_error: "py_key_in x d = Inl e \<Longrightarrow> e = TypeError"
  by (cases x) auto

lemma wb_record_null:
  assumes "py_get rec ''value'' JNull = Inr JNull"
  shows "wb_record ind rec = Inr None"
  using assms
  by (cases rec) (auto simp: wb_record_def wb_outer_def split: sum.splits bool.splits dest: py_key_in_error)

lemma map_sum_Some_Inr: "map_sum id Some s = Inr x \<longleftrightarrow> (\<exists>y. s = Inr y \<and> x = Some y)"
  by (cases s) auto


lemma imf_record_Inr:
  assumes "imf_record ind c y v = Inr r"
  shows "Country_Code r = c \<and> c \<in> fst ` set COUNTRIES \<and> Year r = y \<and> Indicator_Code r = ind
     \<and> Source r = ''IMF'' \<and> map_of COUNTRIES c = Some (Country r, Region r)
     \<and> (v = JStr [] \<and> Value r = None \<or> (v \<noteq> JStr [] \<and> py_float v = Inr (the (Value r)) \<and> Value r \<noteq> None))"
  using assms
  by (auto simp: imf_record_def map_sum_Some_Inr split: option.splits sum.splits if_splits
      dest: map_of_SomeD intro: rev_image_eqI)

lemma imf_point_Some:
  assumes "imf_point ind c k v = Inr (Some r)"
  shows "int_of_str k = Some (Year r) \<and> START_YEAR \<le> Year r \<and> Year r \<le> END_YEAR \<and> v \<noteq> JNull
     \<and> imf_record ind c (Year r) v = Inr r"
  using assms
  by (auto simp: imf_point_def map_sum_Some_Inr split: option.splits sum.splits if_splits
      dest: imf_record_Inr)

lemma imf_years_sound:
  "r \<in> set (snd (imf_years ind c items)) \<Longrightarrow>
     \<exists>kv \<in> set items. imf_point ind c (fst kv) (snd kv) = Inr (Some r)"
proof (induction items)
  case Nil
  then show ?case by simp
next
  case (Cons kv items)
  then show ?case
    by (cases kv) (auto split: sum.splits option.splits if_splits prod.splits)
qed

lemma imf_countries_sound:
  "r \<in> set (snd (imf_countries ind idata ccs)) \<Longrightarrow>
     \<exists>c \<in> set ccs. \<exists>cd items. py_getitem idata c = Inr cd \<and> py_items cd = Inr items
        \<and> (\<exists>kv \<in> set items. imf_point ind c (fst kv) (snd kv) = Inr (Some r))"
proof (induction ccs)
  case Nil
  then show ?case by simp
next
  case (Cons c ccs)
  show ?case
  proof (cases "r \<in> set (snd (imf_countries ind idata ccs))")
    case True
    with Cons.IH show ?thesis by auto
  next
    case False
    with Cons.prems obtain cd items where
      "py_getitem idata c = Inr cd" "py_items cd = Inr items"
      "r \<in> set (snd (imf_years ind c items))"
      by (auto split: sum.splits bool.splits option.splits prod.splits)
    then show ?thesis using imf_years_sound by fastforce
  qed
qed

lemma imf_parse_sound:
  assumes "imf_parse ind ccs response = Inr recs" "r \<in> set recs"
  shows "\<exists>c \<in> set ccs. \<exists>kv \<in> set (imf_entries ind response c).
           imf_point ind c (fst kv) (snd kv) = Inr (Some r)"
proof -
  from assms have "r \<in> set (snd (imf_try ind ccs response))"
    by (auto simp: imf_parse_def split: prod.splits option.splits if_splits)
  then obtain vals idata where v: "py_getitem response ''values'' = Inr vals"
      "py_getitem vals ind = Inr idata" "r \<in> set (snd (imf_countries ind idata ccs))"
    by (auto simp: imf_try_def split: sum.splits bool.splits)
  from imf_countries_sound [OF v(3)] v(1,2) show ?thesis
    by (fastforce simp: imf_entries_def)
qed

lemma get_imf_data_sound:
  assumes "get_imf_data net ind ccs = Inr recs" "r \<in> set recs"
  shows "\<exists>c \<in> set ccs.
           \<exists>kv \<in> set (imf_entries ind (make_request net (imf_url ind ccs) imf_params 3) c).
             imf_point ind c (fst kv) (snd kv) = Inr (Some r)"
  using assms
  by (auto simp: get_imf_data_def Let_def split: option.splits if_splits dest: imf_parse_sound)


lemma wb_inner_Some:
  "wb_inner ind c year v = Inr (Some r) \<Longrightarrow>
     Value r \<noteq> None \<and> Country_Code r = c \<and> c \<in> fst ` set COUNTRIES"
  by (auto simp: wb_inner_def split: sum.splits if_splits option.splits dest: map_of_SomeD
      intro: rev_image_eqI)

lemma wb_record_Some:
  assumes "wb_record ind rec = Inr (Some r)"
  shows "Value r \<noteq> None \<and> Country_Code r \<in> fst ` set COUNTRIES"
proof -
  from assms obtain c year v where "wb_inner ind c year v = Inr (Some r)"
    by (auto simp: wb_record_def wb_outer_def split: sum.splits if_splits bool.splits)
  then show ?thesis using wb_inner_Some by blast
qed

lemma wb_loop_Some:
  "wb_loop ind data = Inr recs \<Longrightarrow> r \<in> set recs \<Longrightarrow>
     Value r \<noteq> None \<and> Country_Code r \<in> fst ` set COUNTRIES"
proof (induction data arbitrary: recs)
  case Nil
  then show ?case by simp
next
  case (Cons d ds)
  then show ?case
    by (auto split: sum.splits option.splits dest: wb_record_Some)
qed

lemma wb_parse_Some:
  "wb_parse ind response = Inr recs \<Longrightarrow> r \<in> set recs \<Longrightarrow>
     Value r \<noteq> None \<and> Country_Code r \<in> fst ` set COUNTRIES"
  by (auto simp: wb_parse_def split: json.splits if_splits sum.splits dest: wb_loop_Some)

lemma get_world_bank_data_Some:
  "get_world_bank_data net ind ccs = Inr recs \<Longrightarrow> r \<in> set recs \<Longrightarrow>
     Value r \<noteq> None \<and> Country_Code r \<in> fst ` set COUNTRIES"
  by (auto simp: get_world_bank_data_def split: option.splits dest: wb_parse_Some)

lemma upt_3: "[0..<3] = [0, 1, 2]"
  by (simp add: upt_rec)

lemma make_request_exhausted:
  assumes "\<forall>k<3. net url params k = RequestException"
  shows "make_request net url params 3 = JNull"
  using assms by (simp add: make_request_def upt_3)

lemma make_request_first:
  assumes "net url params 0 = Response body"
  shows "make_request net url params 3 = body"
  using assms by (simp add: make_request_def upt_3)

lemma wb_parse_short:
  assumes "\<forall>items. response = JList items \<longrightarrow> length items < 2"
  shows "wb_parse ind response = Inr []"
  using assms by (cases response) (auto simp: wb_parse_def)

lemma in_keys_map_of: "k \<in> fst ` set kvs \<Longrightarrow> \<exists>v. map_of kvs k = Some v"
  by (cases "map_of kvs k") (auto simp: map_of_eq_None_iff)

lemma int_of_str_2020: "int_of_str ''2020'' = Some 2020"
  by code_simp

lemma dbl_limit_large: "2 ^ 64 \<le> dbl_limit"
proof -
  have "(2::rat) ^ 971 \<le> 2 ^ 1024"
    by (rule power_increasing) simp_all
  then have "(2::rat) ^ 970 \<le> 2 ^ 1024 - 2 ^ 970"
    by simp
  moreover have "(2::rat) ^ 64 \<le> 2 ^ 970"
    by (rule power_increasing) simp_all
  ultimately show ?thesis
    unfolding dbl_limit_def by (rule order_trans [rotated])
qed

lemma float_of_rat_small:
  assumes "\<bar>q\<bar> < 2 ^ 64"
  shows "float_of_rat q = Finite q"
  using assms dbl_limit_large by (auto simp: float_of_rat_def abs_less_iff)

lemma decimal_5_2: "decimal ''5.2'' = Some (52 / 10)"
  by code_simp

lemma float_of_str_5_2: "float_of_str ''5.2'' = Some (Finite (52 / 10))"
proof -
  have "strip ''5.2'' = ''5.2''" "lower ''5.2'' = ''5.2''"
    by code_simp+
  then show ?thesis
    by (simp add: float_of_str_def decimal_5_2 float_of_rat_small)
qed

lemma BRA_entry: "map_of COUNTRIES ''BRA'' = Some (''Brazil'', ''Latin America'')"
  by (simp add: COUNTRIES_def)

lemma BRA_key: "''BRA'' \<in> fst ` set COUNTRIES"
  by (simp add: COUNTRIES_def)

lemma wb_parse_example:
  assumes "map_of WB_INDICATORS ind = Some (name, description)"
  shows "wb_parse ind (example_wb_response meta) =
     Inr [\<lparr>Country_Code = ''BRA'', Country = ''Brazil'', Region = ''Latin America'',
           Year = 2020, Indicator_Name = name, Indicator_Code = ind,
           Value = Some (Finite (52 / 10)), Source = ''World Bank''\<rparr>]"
  using assms
  by (simp add: wb_parse_def example_wb_response_def wb_record_def wb_outer_def wb_inner_def
      int_of_str_2020 float_of_str_5_2 BRA_entry BRA_key START_YEAR_def END_YEAR_def)

lemma LUR_entry:
  "map_of IMF_INDICATORS ''LUR'' = Some (''Unemployment Rate'', ''Unemployment rate, percent'')"
  by (simp add: IMF_INDICATORS_def)

lemma POP_entry: "map_of WB_INDICATORS ''SP.POP.TOTL'' = Some (''Population'', ''Population, total'')"
  by (simp add: WB_INDICATORS_def)

lemma int_of_str_2019: "int_of_str ''2019'' = Some 2019"
  by code_simp


lemma make_request_net_down: "make_request net_down url params 3 = JNull"
  by (simp add: make_request_exhausted net_down_def)

lemma make_request_net_always: "make_request (net_always body) url params 3 = body"
  by (simp add: make_request_first net_always_def)

lemma get_imf_data_net_always:
  assumes "map_of IMF_INDICATORS ind = Some indicator" "truthy body"
  shows "get_imf_data (net_always body) ind ccs = imf_parse ind ccs body"
  using assms by (simp add: get_imf_data_def make_request_net_always)

lemma get_world_bank_data_net_always:
  assumes "map_of WB_INDICATORS ind = Some indicator"
  shows "get_world_bank_data (net_always body) ind ccs = wb_parse ind body"
  using assms by (simp add: get_world_bank_data_def make_request_net_always)

lemma int_of_str_2025: "int_of_str ''2025'' = Some 2025"
  by code_simp

lemma float_of_str_empty: "float_of_str [] = None"
  by code_simp

lemma py_float_empty: "py_float (JStr []) = Inl ValueError"
  by (simp add: float_of_str_empty)

lemma imf_years_example:
  "imf_years ''LUR'' ''BRA''
      [(''2019'', JFloat (Finite (119 / 10))), (''2025'', JFloat (Finite 8))] =
     (None, [\<lparr>Country_Code = ''BRA'', Country = ''Brazil'', Region = ''Latin America'',
           Year = 2019, Indicator_Name = ''Unemployment Rate'', Indicator_Code = ''LUR'',
           Value = Some (Finite (119 / 10)), Source = ''IMF''\<rparr>])"
  by (simp add: imf_point_def imf_record_def BRA_entry LUR_entry int_of_str_2019
      int_of_str_2025 START_YEAR_def END_YEAR_def)

lemma imf_countries_single:
  assumes "imf_years ind c items = (None, rs)"
  shows "imf_countries ind (JDict [(c, JDict items)]) ccs =
     (None, concat (map (\<lambda>c'. if c' = c then rs else []) ccs))"
  using assms by (induction ccs) auto

lemma concat_single:
  "distinct xs \<Longrightarrow> x \<in> set xs \<Longrightarrow> concat (map (\<lambda>c'. if c' = x then ys else []) xs) = ys"
proof (induction xs)
  case Nil
  then show ?case by simp
next
  case (Cons a xs)
  have "x \<notin> set xs \<Longrightarrow> concat (map (\<lambda>c'. if c' = x then ys else []) xs) = []"
    by (induction xs) auto
  with Cons show ?case by auto
qed

lemma imf_parse_example:
  assumes "distinct ccs" "''BRA'' \<in> set ccs"
  shows "imf_parse ''LUR'' ccs example_imf_response =
     Inr [\<lparr>Country_Code = ''BRA'', Country = ''Brazil'', Region = ''Latin America'',
           Year = 2019, Indicator_Name = ''Unemployment Rate'', Indicator_Code = ''LUR'',
           Value = Some (Finite (119 / 10)), Source = ''IMF''\<rparr>]"
  using assms
  by (simp add: imf_parse_def imf_try_def example_imf_response_def
      imf_countries_single [OF imf_years_example] concat_single)

lemma truthy_example_imf: "truthy example_imf_response"
  by (simp add: example_imf_response_def)


lemma get_imf_data_example:
  "get_imf_data (net_always example_imf_response) ''LUR'' [''BRA''] =
     Inr [\<lparr>Country_Code = ''BRA'', Country = ''Brazil'', Region = ''Latin America'',
           Year = 2019, Indicator_Name = ''Unemployment Rate'', Indicator_Code = ''LUR'',
           Value = Some (Finite (119 / 10)), Source = ''IMF''\<rparr>]"
  by (simp add: get_imf_data_net_always [OF LUR_entry truthy_example_imf] imf_parse_example)


lemma get_world_bank_data_example:
  "get_world_bank_data (net_always (example_wb_response JNull)) ''SP.POP.TOTL'' [''BRA''] =
     Inr [\<lparr>Country_Code = ''BRA'', Country = ''Brazil'', Region = ''Latin America'',
           Year = 2020, Indicator_Name = ''Population'', Indicator_Code = ''SP.POP.TOTL'',
           Value = Some (Finite (52 / 10)), Source = ''World Bank''\<rparr>]"
  by (simp add: get_world_bank_data_net_always [OF POP_entry] wb_parse_example [OF POP_entry])

subsection \<open>The cleaner\<close>

lemma coerce_years_Inr:
  "coerce_years rs = Inr rs' \<Longrightarrow> rs' = map (\<lambda>r. r\<lparr>Year := (case astype_Int64 (to_numeric (Year r)) of Inl e \<Rightarrow> CNull | Inr y \<Rightarrow> y)\<rparr>) rs"
  by (induction rs arbitrary: rs') (auto split: sum.splits)

lemma clean_data_Inr:
  assumes "clean_data df = Inr out"
  shows "out = sort_key sort_tuple (map clean_row (filter kept df))"
proof -
  from assms obtain ys where ys: "coerce_years (dropna df) = Inr ys"
    and out: "out = sort_values (map (\<lambda>r. r\<lparr>Value := to_numeric (Value r)\<rparr>) ys)"
    by (auto simp: clean_data_def Let_def split: sum.splits)
  have "dropna df = filter kept df"
    unfolding dropna_def by (rule filter_cong) (auto simp: kept_def)
  with coerce_years_Inr [OF ys] out show ?thesis
    by (simp add: sort_values_def clean_row_def [abs_def] comp_def)
qed

lemma coerce_years_cast:
  "coerce_years rs = Inr rs' \<Longrightarrow> r \<in> set rs \<Longrightarrow> \<exists>y. astype_Int64 (to_numeric (Year r)) = Inr y"
  by (induction rs arbitrary: rs') (auto split: sum.splits)

lemma clean_data_cast:
  assumes "clean_data df = Inr out" "r \<in> set df" "kept r"
  shows "\<exists>y. astype_Int64 (to_numeric (Year r)) = Inr y"
proof -
  from assms(1) obtain ys where ys: "coerce_years (dropna df) = Inr ys"
    by (auto simp: clean_data_def Let_def split: sum.splits)
  from assms(2,3) have "r \<in> set (dropna df)"
    by (simp add: dropna_def kept_def)
  with ys show ?thesis by (rule coerce_years_cast)
qed

lemma int64_Inr: "int64 i = Inr y \<Longrightarrow> y = CInt i \<and> - (2 ^ 63) \<le> i \<and> i < 2 ^ 63"
  by (auto simp: int64_def split: if_splits)

lemma astype_Int64_Inr:
  assumes "astype_Int64 c = Inr y"
  shows "y = CNull \<or> (\<exists>i. y = CInt i \<and> - (2 ^ 63) \<le> i \<and> i < 2 ^ 63)"
  using assms
  by (induction c rule: astype_Int64.induct) (auto split: if_splits dest: int64_Inr)

lemma to_numeric_idem: "to_numeric (to_numeric c) = to_numeric c"
  by (cases c) (auto split: option.splits)

lemma coerce_years_id:
  "(\<forall>r \<in> set rs. astype_Int64 (to_numeric (Year r)) = Inr (Year r)) \<Longrightarrow> coerce_years rs = Inr rs"
  by (induction rs) auto


lemma clean_row_kept:
  assumes "kept r" "astype_Int64 (to_numeric (Year r)) = Inr y" "y \<noteq> CNull"
  shows "kept (clean_row r)"
  using assms astype_Int64_Inr [OF assms(2)]
  by (auto simp: kept_def clean_row_def)

lemma clean_row_fixed:
  assumes "astype_Int64 (to_numeric (Year r)) = Inr y" "y \<noteq> CNull"
  shows "astype_Int64 (to_numeric (Year (clean_row r))) = Inr (Year (clean_row r))"
    and "to_numeric (Value (clean_row r)) = Value (clean_row r)"
  using assms astype_Int64_Inr [OF assms(1)]
  by (auto simp: clean_row_def to_numeric_idem int64_def)

lemma abc_not_numeric: "int_of_str ''abc'' = None" "float_of_str ''abc'' = None"
  by code_simp+

lemma to_numeric_abc: "to_numeric (CStr ''abc'') = CNull"
  by (simp add: abc_not_numeric)

lemma clean_data_bad_year:
  "clean_data [brazil_row (CStr ''abc'') (CInt 1)] = Inr [brazil_row CNull (CInt 1)]"
  "clean_data [brazil_row CNull (CInt 1)] = Inr []"
  by (simp_all add: clean_data_def dropna_def sort_values_def brazil_row_def abc_not_numeric)

lemma clean_data_two_rows:
  "clean_data [brazil_row (CStr ''2019'') (CStr ''n/a''), argentina_row (CInt 2020) (CFloat (Finite 5))]
     = Inr [argentina_row (CInt 2020) (CFloat (Finite 5)), brazil_row (CInt 2019) CNull]"
  by code_simp

lemma clean_data_two_rows_again:
  "clean_data [argentina_row (CInt 2020) (CFloat (Finite 5)), brazil_row (CInt 2019) CNull]
     = Inr [argentina_row (CInt 2020) (CFloat (Finite 5)), brazil_row (CInt 2019) CNull]"
  by code_simp

lemma clean_data_drop_example:
  "clean_data [brazil_row (CInt 2020) (CStr ''n/a''), brazil_row CNull (CInt 7)]
     = Inr [brazil_row (CInt 2020) CNull]"
  by code_simp


lemma plain_tuple_le:
  assumes "plain_tuple r = Some t" "plain_tuple r' = Some t'"
  shows "sort_tuple r \<le> sort_tuple r' \<longleftrightarrow> t \<le> t'"
  using assms
  by (auto simp: plain_tuple_def sort_tuple_def text_key_def year_key_def less_eq_prod_def
      less_prod_def split: option.splits cell.splits)

lemma clean_data_fixed_point:
  assumes "clean_data df = Inr out" "\<forall>r \<in> set out. Year r \<noteq> CNull"
  shows "clean_data out = Inr out"
proof -
  note out = clean_data_Inr [OF assms(1)]
  have each: "kept r' \<and> astype_Int64 (to_numeric (Year r')) = Inr (Year r')
      \<and> to_numeric (Value r') = Value r'" if "r' \<in> set out" for r'
  proof -
    from that out obtain r where r: "r \<in> set df" "kept r" "r' = clean_row r"
      by auto
    from clean_data_cast [OF assms(1) r(1,2)] obtain y
      where y: "astype_Int64 (to_numeric (Year r)) = Inr y" by blast
    then have "Year r' = y"
      by (simp add: r(3) clean_row_def)
    with assms(2) that have "y \<noteq> CNull" by auto
    with y r show ?thesis
      using clean_row_kept clean_row_fixed by blast
  qed
  have "dropna out = out"
    unfolding dropna_def using each by (auto simp: kept_def filter_id_conv)
  moreover have "coerce_years out = Inr out"
    using each by (simp add: coerce_years_id)
  moreover have "map (\<lambda>r. r\<lparr>Value := to_numeric (Value r)\<rparr>) out = out"
    using each by (simp add: map_idI)
  moreover have "sort_values out = out"
    unfolding sort_values_def out by (rule sort_key_id_if_sorted) simp
  ultimately show ?thesis
    by (simp add: clean_data_def)
qed

lemma coerce_years_total:
  "(\<forall>r \<in> set rs. \<exists>y. astype_Int64 (to_numeric (Year r)) = Inr y) \<Longrightarrow> \<exists>rs'. coerce_years rs = Inr rs'"
  by (induction rs) auto

lemma as_row_kept:
  assumes "r \<in> set (map as_row all_data)"
    "\<forall>p \<in> set all_data. START_YEAR \<le> Year p \<and> Year p \<le> END_YEAR"
  shows "kept r \<and> (\<exists>i. Year r = CInt i \<and> astype_Int64 (to_numeric (Year r)) = Inr (CInt i))"
  using assms
  by (auto simp: as_row_def kept_def int64_def START_YEAR_def END_YEAR_def)

lemma clean_data_DataFrame:
  assumes "all_data \<noteq> []"
    and "\<forall>p \<in> set all_data. START_YEAR \<le> Year p \<and> Year p \<le> END_YEAR"
  shows "\<exists>df out. DataFrame all_data = Some df \<and> clean_data df = Inr out
     \<and> length out = length all_data \<and> clean_data out = Inr out"
proof -
  let ?df = "map as_row all_data"
  from assms(1) have d: "DataFrame all_data = Some ?df"
    by (simp add: DataFrame_def)
  have rows: "kept r \<and> (\<exists>i. Year r = CInt i \<and> astype_Int64 (to_numeric (Year r)) = Inr (CInt i))"
    if "r \<in> set ?df" for r
    using that assms(2) by (rule as_row_kept)
  then have keep: "filter kept ?df = ?df"
    by (simp add: filter_id_conv)
  then have "dropna ?df = ?df"
    unfolding dropna_def kept_def [abs_def] .
  moreover from rows have "\<exists>rs'. coerce_years ?df = Inr rs'"
    by (intro coerce_years_total) blast
  ultimately obtain out where out: "clean_data ?df = Inr out"
    by (auto simp: clean_data_def)
  from clean_data_Inr [OF out] keep have o: "out = sort_key sort_tuple (map clean_row ?df)"
    by simp
  then have "length out = length all_data"
    by simp
  moreover have "\<forall>r' \<in> set out. Year r' \<noteq> CNull"
  proof
    fix r'
    assume "r' \<in> set out"
    with o obtain r where "r \<in> set ?df" "r' = clean_row r"
      by auto
    with rows [of r] show "Year r' \<noteq> CNull"
      by (auto simp: clean_row_def)
  qed
  ultimately show ?thesis
    using d out clean_data_fixed_point by blast
qed

lemma DataFrame_example_point:
  "DataFrame [\<lparr>Country_Code = ''BRA'', Country = ''Brazil'', Region = ''Latin America'',
       Year = 2019, Indicator_Name = ''Unemployment Rate'', Indicator_Code = ''LUR'',
       Value = Some (Finite (119 / 10)), Source = ''IMF''\<rparr>]
     = Some [\<lparr>Country_Code = Some ''BRA'', Country = Some ''Brazil'',
             Region = Some ''Latin America'', Year = CInt 2019,
             Indicator_Name = Some ''Unemployment Rate'', Indicator_Code = Some ''LUR'',
             Value = CFloat (Finite (119 / 10)), Source = Some ''IMF''\<rparr>]"
  by (simp add: DataFrame_def as_row_def)

lemma clean_data_example_row:
  "clean_data [\<lparr>Country_Code = Some ''BRA'', Country = Some ''Brazil'',
             Region = Some ''Latin America'', Year = CInt 2019,
             Indicator_Name = Some ''Unemployment Rate'', Indicator_Code = Some ''LUR'',
             Value = CFloat (Finite (119 / 10)), Source = Some ''IMF''\<rparr>]
     = Inr [\<lparr>Country_Code = Some ''BRA'', Country = Some ''Brazil'',
             Region = Some ''Latin America'', Year = CInt 2019,
             Indicator_Name = Some ''Unemployment Rate'', Indicator_Code = Some ''LUR'',
             Value = CFloat (Finite (119 / 10)), Source = Some ''IMF''\<rparr>]"
  by code_simp

subsection \<open>The fund adapter on a well-formed response\<close>






































section \<open>The request helper and the calls that get no data\<close>

text \<open>
  Claim C8. When each of the three attempts of a request fails with a transport or status
  error, \<open>make_request\<close> returns the "no data" value instead of raising; an adapter
  called for a configured indicator then returns no records, and the fetching loop goes on
  with the remaining indicators exactly as if this indicator had not been there.
\<close>

theorem retries_exhausted_no_records:
  "((\<forall>k<3. net url params k = RequestException) \<longrightarrow> make_request net url params 3 = JNull)
   \<and> (imf_code \<in> fst ` set IMF_INDICATORS
        \<and> (\<forall>k<3. net (imf_url imf_code country_codes) imf_params k = RequestException)
      \<longrightarrow> get_imf_data net imf_code country_codes = Inr []
          \<and> fetch_all (\<lambda>i. get_imf_data net i country_codes) (imf_code # rest)
              = fetch_all (\<lambda>i. get_imf_data net i country_codes) rest)
   \<and> (wb_code \<in> fst ` set WB_INDICATORS
        \<and> (\<forall>k<3. net (wb_url wb_code country_codes) wb_params k = RequestException)
      \<longrightarrow> get_world_bank_data net wb_code country_codes = Inr []
          \<and> fetch_all (\<lambda>i. get_world_bank_data net i country_codes) (wb_code # rest)
              = fetch_all (\<lambda>i. get_world_bank_data net i country_codes) rest)"
proof (intro conjI impI)
  assume "\<forall>k<3. net url params k = RequestException"
  then show "make_request net url params 3 = JNull"
    by (rule make_request_exhausted)
next
  assume a: "imf_code \<in> fst ` set IMF_INDICATORS
        \<and> (\<forall>k<3. net (imf_url imf_code country_codes) imf_params k = RequestException)"
  with in_keys_map_of [of imf_code IMF_INDICATORS] obtain indicator
    where "map_of IMF_INDICATORS imf_code = Some indicator" by blast
  with a show g: "get_imf_data net imf_code country_codes = Inr []"
    by (simp add: get_imf_data_def make_request_exhausted)
  show "fetch_all (\<lambda>i. get_imf_data net i country_codes) (imf_code # rest)
              = fetch_all (\<lambda>i. get_imf_data net i country_codes) rest"
    by (simp add: g split: sum.splits)
next
  assume a: "wb_code \<in> fst ` set WB_INDICATORS
        \<and> (\<forall>k<3. net (wb_url wb_code country_codes) wb_params k = RequestException)"
  with in_keys_map_of [of wb_code WB_INDICATORS] obtain indicator
    where "map_of WB_INDICATORS wb_code = Some indicator" by blast
  with a show g: "get_world_bank_data net wb_code country_codes = Inr []"
    by (simp add: get_world_bank_data_def make_request_exhausted wb_parse_short)
  show "fetch_all (\<lambda>i. get_world_bank_data net i country_codes) (wb_code # rest)
              = fetch_all (\<lambda>i. get_world_bank_data net i country_codes) rest"
    by (simp add: g split: sum.splits)
qed

theorem retries_exhausted_no_records_witness:
  "net_down ''u'' [] 0 = RequestException \<and> net_down ''u'' [] 1 = RequestException
   \<and> net_down ''u'' [] 2 = RequestException
   \<and> ''LUR'' \<in> fst ` set IMF_INDICATORS \<and> ''SP.POP.TOTL'' \<in> fst ` set WB_INDICATORS
   \<and> net_down (imf_url ''LUR'' [''BRA'']) imf_params 0 = RequestException
   \<and> net_down (imf_url ''LUR'' [''BRA'']) imf_params 1 = RequestException
   \<and> net_down (imf_url ''LUR'' [''BRA'']) imf_params 2 = RequestException
   \<and> net_down (wb_url ''SP.POP.TOTL'' [''BRA'']) wb_params 0 = RequestException
   \<and> net_down (wb_url ''SP.POP.TOTL'' [''BRA'']) wb_params 1 = RequestException
   \<and> net_down (wb_url ''SP.POP.TOTL'' [''BRA'']) wb_params 2 = RequestException
   \<and> make_request net_down ''u'' [] 3 = JNull
   \<and> get_imf_data net_down ''LUR'' [''BRA''] = Inr []
   \<and> fetch_all (\<lambda>i. get_imf_data net_down i [''BRA'']) [''LUR'', ''PCPIPCH'']
       = fetch_all (\<lambda>i. get_imf_data net_down i [''BRA'']) [''PCPIPCH'']
   \<and> get_world_bank_data net_down ''SP.POP.TOTL'' [''BRA''] = Inr []
   \<and> fetch_all (\<lambda>i. get_world_bank_data net_down i [''BRA'']) [''SP.POP.TOTL'', ''NY.GNP.PCAP.CD'']
       = fetch_all (\<lambda>i. get_world_bank_data net_down i [''BRA'']) [''NY.GNP.PCAP.CD'']"
proof -
  have k: "''LUR'' \<in> fst ` set IMF_INDICATORS" "''SP.POP.TOTL'' \<in> fst ` set WB_INDICATORS"
    by (simp_all add: IMF_INDICATORS_def WB_INDICATORS_def)
  have d: "net_down url params k = RequestException" for url params k
    by (simp add: net_down_def)
  show ?thesis
    using k retries_exhausted_no_records [of net_down "''u''" "[]" "''LUR''" "[''BRA'']"
        "[''PCPIPCH'']" "''SP.POP.TOTL''"]
      retries_exhausted_no_records [of net_down "''u''" "[]" "''LUR''" "[''BRA'']"
        "[''NY.GNP.PCAP.CD'']" "''SP.POP.TOTL''"]
    by (simp add: d del: fetch_all.simps)
qed

text \<open>
  Claim C9. A development-bank call for a configured indicator whose response is absent,
  is not a list, or is a list of fewer than two elements returns zero records and does not
  raise.
\<close>

theorem wb_no_data_no_records:
  assumes "indicator_code \<in> fst ` set WB_INDICATORS"
    and "\<forall>items. make_request net (wb_url indicator_code country_codes) wb_params 3 = JList items
           \<longrightarrow> length items < 2"
  shows "get_world_bank_data net indicator_code country_codes = Inr []"
proof -
  from in_keys_map_of [OF assms(1)] obtain indicator
    where "map_of WB_INDICATORS indicator_code = Some indicator" by blast
  with wb_parse_short [OF assms(2)] show ?thesis
    by (simp add: get_world_bank_data_def)
qed

theorem wb_no_data_no_records_witness:
  "''SP.POP.TOTL'' \<in> fst ` set WB_INDICATORS
   \<and> make_request net_down (wb_url ''SP.POP.TOTL'' [''BRA'', ''MEX'']) wb_params 3 = JNull
   \<and> make_request (net_always (JList [JDict []])) (wb_url ''SP.POP.TOTL'' [''BRA'', ''MEX'']) wb_params 3
       = JList [JDict []]
   \<and> make_request (net_always (JDict [(''message'', JStr ''x'')])) (wb_url ''SP.POP.TOTL'' [''BRA'', ''MEX'']) wb_params 3
       = JDict [(''message'', JStr ''x'')]
   \<and> get_world_bank_data net_down ''SP.POP.TOTL'' [''BRA'', ''MEX''] = Inr []
   \<and> get_world_bank_data (net_always (JList [JDict []])) ''SP.POP.TOTL'' [''BRA'', ''MEX''] = Inr []
   \<and> get_world_bank_data (net_always (JDict [(''message'', JStr ''x'')])) ''SP.POP.TOTL'' [''BRA'', ''MEX''] = Inr []"
proof -
  have k: "''SP.POP.TOTL'' \<in> fst ` set WB_INDICATORS"
    by (simp add: WB_INDICATORS_def)
  show ?thesis
    using k wb_no_data_no_records [OF k, of net_down "[''BRA'', ''MEX'']"]
      wb_no_data_no_records [OF k, of "net_always (JList [JDict []])" "[''BRA'', ''MEX'']"]
      wb_no_data_no_records [OF k, of "net_always (JDict [(''message'', JStr ''x'')])" "[''BRA'', ''MEX'']"]
    by (simp add: make_request_net_down make_request_net_always)
qed

section \<open>Records of the development-bank adapter\<close>

text \<open>
  Claim C4. For the response
  \<^verbatim>\<open>[meta, [{"countryiso3code": "BRA", "date": "2020", "value": "5.2"}]]\<close>, whatever
  \<^verbatim>\<open>meta\<close> and the country list are, the development-bank adapter returns exactly one
  record: country Brazil, region Latin America, year 2020, value 5.2, source World Bank
  (and the name of the indicator asked for).
\<close>

theorem wb_example_record:
  assumes "map_of WB_INDICATORS indicator_code = Some (name, description)"
    and "net (wb_url indicator_code country_codes) wb_params 0 = Response (example_wb_response meta)"
  shows "get_world_bank_data net indicator_code country_codes =
     Inr [\<lparr>Country_Code = ''BRA'', Country = ''Brazil'', Region = ''Latin America'',
           Year = 2020, Indicator_Name = name, Indicator_Code = indicator_code,
           Value = Some (Finite (52 / 10)), Source = ''World Bank''\<rparr>]"
  using assms
  by (simp add: get_world_bank_data_def make_request_first wb_parse_example)

theorem wb_example_record_witness:
  "map_of WB_INDICATORS ''SP.POP.TOTL'' = Some (''Population'', ''Population, total'')
   \<and> net_always (example_wb_response (JDict [(''page'', JInt 1)]))
        (wb_url ''SP.POP.TOTL'' [''BRA'', ''MEX'']) wb_params 0
       = Response (example_wb_response (JDict [(''page'', JInt 1)]))
   \<and> get_world_bank_data (net_always (example_wb_response (JDict [(''page'', JInt 1)])))
        ''SP.POP.TOTL'' [''BRA'', ''MEX''] =
     Inr [\<lparr>Country_Code = ''BRA'', Country = ''Brazil'', Region = ''Latin America'',
           Year = 2020, Indicator_Name = ''Population'', Indicator_Code = ''SP.POP.TOTL'',
           Value = Some (Finite (52 / 10)), Source = ''World Bank''\<rparr>]"
proof -
  have n: "net_always (example_wb_response (JDict [(''page'', JInt 1)]))
        (wb_url ''SP.POP.TOTL'' [''BRA'', ''MEX'']) wb_params 0
       = Response (example_wb_response (JDict [(''page'', JInt 1)]))"
    by (simp add: net_always_def)
  from wb_example_record [where net = "net_always (example_wb_response (JDict [(''page'', JInt 1)]))"
      and indicator_code = "''SP.POP.TOTL''" and country_codes = "[''BRA'', ''MEX'']"
      and meta = "JDict [(''page'', JInt 1)]", OF POP_entry n] POP_entry n
  show ?thesis
    by simp
qed

text \<open>
  Claim C10. Every record the development-bank adapter returns carries a float, never
  \<^verbatim>\<open>None\<close>; an entry whose \<^verbatim>\<open>value\<close> field is null (or absent) appends nothing.
\<close>

theorem wb_values_not_null:
  "(get_world_bank_data net indicator_code country_codes = Inr data_points
      \<longrightarrow> (\<forall>r \<in> set data_points. \<exists>f. Value r = Some f))
   \<and> (py_get rec ''value'' JNull = Inr JNull \<longrightarrow> wb_record indicator_code rec = Inr None)"
proof (intro conjI impI ballI)
  fix r
  assume "get_world_bank_data net indicator_code country_codes = Inr data_points"
    and "r \<in> set data_points"
  then have "Value r \<noteq> None"
    using get_world_bank_data_Some by blast
  then show "\<exists>f. Value r = Some f"
    by blast
next
  assume "py_get rec ''value'' JNull = Inr JNull"
  then show "wb_record indicator_code rec = Inr None"
    by (rule wb_record_null)
qed

theorem wb_values_not_null_witness:
  "get_world_bank_data (net_always (example_wb_response JNull)) ''SP.POP.TOTL'' [''BRA''] =
     Inr [\<lparr>Country_Code = ''BRA'', Country = ''Brazil'', Region = ''Latin America'',
           Year = 2020, Indicator_Name = ''Population'', Indicator_Code = ''SP.POP.TOTL'',
           Value = Some (Finite (52 / 10)), Source = ''World Bank''\<rparr>]
   \<and> py_get null_value_record ''value'' JNull = Inr JNull
   \<and> wb_record ''SP.POP.TOTL'' null_value_record = Inr None"
proof -
  have e: "get_world_bank_data (net_always (example_wb_response JNull)) ''SP.POP.TOTL'' [''BRA''] =
     Inr [\<lparr>Country_Code = ''BRA'', Country = ''Brazil'', Region = ''Latin America'',
           Year = 2020, Indicator_Name = ''Population'', Indicator_Code = ''SP.POP.TOTL'',
           Value = Some (Finite (52 / 10)), Source = ''World Bank''\<rparr>]"
    by (simp add: get_world_bank_data_net_always [OF POP_entry] wb_parse_example [OF POP_entry])
  have g: "py_get null_value_record ''value'' JNull = Inr JNull"
    by (simp add: null_value_record_def)
  from wb_values_not_null [of "net_always (example_wb_response JNull)" "''SP.POP.TOTL''"
      "[''BRA'']" _ null_value_record] e g
  show ?thesis by simp
qed

section \<open>Country codes of the records\<close>

text \<open>
  Claim C3. Whatever the response and the country list, every record that either adapter
  returns has a country code that is a key of \<open>COUNTRIES\<close>.
\<close>

theorem country_codes_known:
  "(get_imf_data net indicator_code country_codes = Inr data_points
      \<longrightarrow> (\<forall>r \<in> set data_points. Country_Code r \<in> fst ` set COUNTRIES))
   \<and> (get_world_bank_data net' indicator_code' country_codes' = Inr data_points'
      \<longrightarrow> (\<forall>r \<in> set data_points'. Country_Code r \<in> fst ` set COUNTRIES))"
proof (intro conjI impI ballI)
  fix r
  assume "get_imf_data net indicator_code country_codes = Inr data_points" "r \<in> set data_points"
  from get_imf_data_sound [OF this] obtain c kv
    where "imf_point indicator_code c (fst kv) (snd kv) = Inr (Some r)"
    by blast
  from imf_point_Some [OF this] have "imf_record indicator_code c (Year r) (snd kv) = Inr r"
    by simp
  from imf_record_Inr [OF this] show "Country_Code r \<in> fst ` set COUNTRIES"
    by simp
next
  fix r
  assume "get_world_bank_data net' indicator_code' country_codes' = Inr data_points'"
    "r \<in> set data_points'"
  then show "Country_Code r \<in> fst ` set COUNTRIES"
    using get_world_bank_data_Some by blast
qed

theorem country_codes_known_witness:
  "get_imf_data (net_always example_imf_response) ''LUR'' [''BRA''] =
     Inr [\<lparr>Country_Code = ''BRA'', Country = ''Brazil'', Region = ''Latin America'',
           Year = 2019, Indicator_Name = ''Unemployment Rate'', Indicator_Code = ''LUR'',
           Value = Some (Finite (119 / 10)), Source = ''IMF''\<rparr>]
   \<and> get_world_bank_data (net_always (example_wb_response JNull)) ''SP.POP.TOTL'' [''BRA''] =
     Inr [\<lparr>Country_Code = ''BRA'', Country = ''Brazil'', Region = ''Latin America'',
           Year = 2020, Indicator_Name = ''Population'', Indicator_Code = ''SP.POP.TOTL'',
           Value = Some (Finite (52 / 10)), Source = ''World Bank''\<rparr>]
   \<and> ''BRA'' \<in> fst ` set COUNTRIES"
  using country_codes_known [of "net_always example_imf_response" "''LUR''" "[''BRA'']" _
      "net_always (example_wb_response JNull)" "''SP.POP.TOTL''" "[''BRA'']"]
  by (simp add: get_imf_data_example get_world_bank_data_example BRA_key)

section \<open>Values that do not convert, in the fund adapter\<close>




section \<open>Properties of the cleaner\<close>

text \<open>
  Claim C5, as stated, fails: a row whose year is present but does not read as a number
  survives the first pass with a missing year (line 298 coerces after line 295 has dropped
  the missing ones), and the second pass drops it.
\<close>

theorem clean_not_idempotent_counterexample:
  "clean_data [brazil_row (CStr ''abc'') (CInt 1)] = Inr [brazil_row CNull (CInt 1)]
   \<and> clean_data [brazil_row CNull (CInt 1)] = Inr []"
  by (simp add: clean_data_bad_year)

text \<open>
  Claim C5, amended. When the first pass returns a table in which no year is missing
  (no year of a kept row failed the conversion to a number), cleaning that table again
  returns it unchanged: no row is dropped, no field changes, and the order stays. This
  covers the tables of the pipeline: on the dataframe of any non-empty list of adapter
  records with years within the bounds, \<open>clean_data\<close> returns, keeps every record, and
  its result is a fixed point. (The dataframe of the empty list has no columns; \<^verbatim>\<open>main\<close>
  never cleans it.)
\<close>

theorem clean_data_idempotent:
  "(clean_data df = Inr out \<and> (\<forall>r \<in> set out. Year r \<noteq> CNull) \<longrightarrow> clean_data out = Inr out)
   \<and> (all_data \<noteq> [] \<and> (\<forall>p \<in> set all_data. START_YEAR \<le> Year p \<and> Year p \<le> END_YEAR)
      \<longrightarrow> (\<exists>df' out'. DataFrame all_data = Some df' \<and> clean_data df' = Inr out'
            \<and> length out' = length all_data \<and> clean_data out' = Inr out'))"
  using clean_data_fixed_point clean_data_DataFrame by blast

theorem clean_data_idempotent_witness:
  "clean_data [brazil_row (CStr ''2019'') (CStr ''n/a''), argentina_row (CInt 2020) (CFloat (Finite 5))]
     = Inr [argentina_row (CInt 2020) (CFloat (Finite 5)), brazil_row (CInt 2019) CNull]
   \<and> Year (argentina_row (CInt 2020) (CFloat (Finite 5))) \<noteq> CNull
   \<and> Year (brazil_row (CInt 2019) CNull) \<noteq> CNull
   \<and> clean_data [argentina_row (CInt 2020) (CFloat (Finite 5)), brazil_row (CInt 2019) CNull]
     = Inr [argentina_row (CInt 2020) (CFloat (Finite 5)), brazil_row (CInt 2019) CNull]
   \<and> [\<lparr>Country_Code = ''BRA'', Country = ''Brazil'', Region = ''Latin America'',
         Year = 2019 :: int, Indicator_Name = ''Unemployment Rate'', Indicator_Code = ''LUR'',
         Value = Some (Finite (119 / 10)), Source = ''IMF''\<rparr>] \<noteq> []
   \<and> START_YEAR \<le> 2019 \<and> 2019 \<le> END_YEAR
   \<and> DataFrame [\<lparr>Country_Code = ''BRA'', Country = ''Brazil'', Region = ''Latin America'',
         Year = 2019, Indicator_Name = ''Unemployment Rate'', Indicator_Code = ''LUR'',
         Value = Some (Finite (119 / 10)), Source = ''IMF''\<rparr>]
     = Some [\<lparr>Country_Code = Some ''BRA'', Country = Some ''Brazil'',
             Region = Some ''Latin America'', Year = CInt 2019,
             Indicator_Name = Some ''Unemployment Rate'', Indicator_Code = Some ''LUR'',
             Value = CFloat (Finite (119 / 10)), Source = Some ''IMF''\<rparr>]
   \<and> clean_data [\<lparr>Country_Code = Some ''BRA'', Country = Some ''Brazil'',
             Region = Some ''Latin America'', Year = CInt 2019,
             Indicator_Name = Some ''Unemployment Rate'', Indicator_Code = Some ''LUR'',
             Value = CFloat (Finite (119 / 10)), Source = Some ''IMF''\<rparr>]
     = Inr [\<lparr>Country_Code = Some ''BRA'', Country = Some ''Brazil'',
             Region = Some ''Latin America'', Year = CInt 2019,
             Indicator_Name = Some ''Unemployment Rate'', Indicator_Code = Some ''LUR'',
             Value = CFloat (Finite (119 / 10)), Source = Some ''IMF''\<rparr>]"
proof -
  have y: "\<forall>r \<in> set [argentina_row (CInt 2020) (CFloat (Finite 5)), brazil_row (CInt 2019) CNull].
      Year r \<noteq> CNull"
    by (simp add: argentina_row_def brazil_row_def)
  from clean_data_idempotent [THEN conjunct1, rule_format, OF conjI, OF clean_data_two_rows y]
  have "clean_data [argentina_row (CInt 2020) (CFloat (Finite 5)), brazil_row (CInt 2019) CNull]
     = Inr [argentina_row (CInt 2020) (CFloat (Finite 5)), brazil_row (CInt 2019) CNull]" .
  with clean_data_two_rows y DataFrame_example_point clean_data_example_row show ?thesis
    by (simp add: START_YEAR_def END_YEAR_def)
qed

text \<open>
  Claim C6. The rows \<open>clean_data\<close> returns are in non-decreasing order of the sort key
  of line 302, in which a missing component comes after every present one; each row's key
  is at most the key of the next row. Where two consecutive rows have country, year and
  indicator name all present, this is the lexicographic order of the tuples (country,
  year, indicator name).
\<close>

theorem clean_data_sorted:
  assumes "clean_data df = Inr out"
  shows "sorted (map sort_tuple out)
     \<and> (\<forall>i. Suc i < length out \<longrightarrow> sort_tuple (out ! i) \<le> sort_tuple (out ! Suc i))
     \<and> (\<forall>i t t'. Suc i < length out \<and> plain_tuple (out ! i) = Some t
            \<and> plain_tuple (out ! Suc i) = Some t' \<longrightarrow> t \<le> t')"
proof -
  have s: "sorted (map sort_tuple out)"
    unfolding clean_data_Inr [OF assms] by simp
  have n: "sort_tuple (out ! i) \<le> sort_tuple (out ! Suc i)" if "Suc i < length out" for i
  proof -
    from s that have "map sort_tuple out ! i \<le> map sort_tuple out ! Suc i"
      by (intro sorted_nth_mono) simp_all
    with that show ?thesis by simp
  qed
  from s n show ?thesis
    using plain_tuple_le by blast
qed

theorem clean_data_sorted_witness:
  "clean_data [brazil_row (CStr ''2019'') (CStr ''n/a''), argentina_row (CInt 2020) (CFloat (Finite 5))]
     = Inr [argentina_row (CInt 2020) (CFloat (Finite 5)), brazil_row (CInt 2019) CNull]
   \<and> plain_tuple (argentina_row (CInt 2020) (CFloat (Finite 5))) = Some (''Argentina'', 2020, ''Population'')
   \<and> plain_tuple (brazil_row (CInt 2019) CNull) = Some (''Brazil'', 2019, ''Population'')
   \<and> sort_tuple (argentina_row (CInt 2020) (CFloat (Finite 5))) \<le> sort_tuple (brazil_row (CInt 2019) CNull)
   \<and> (''Argentina'', 2020 :: int, ''Population'') \<le> (''Brazil'', 2019, ''Population'')"
proof -
  have p: "plain_tuple (argentina_row (CInt 2020) (CFloat (Finite 5))) = Some (''Argentina'', 2020, ''Population'')"
    "plain_tuple (brazil_row (CInt 2019) CNull) = Some (''Brazil'', 2019, ''Population'')"
    by (simp_all add: plain_tuple_def argentina_row_def brazil_row_def)
  from clean_data_sorted [OF clean_data_two_rows]
  have "sort_tuple ([argentina_row (CInt 2020) (CFloat (Finite 5)), brazil_row (CInt 2019) CNull] ! 0)
      \<le> sort_tuple ([argentina_row (CInt 2020) (CFloat (Finite 5)), brazil_row (CInt 2019) CNull] ! Suc 0)"
    by simp
  then have "sort_tuple (argentina_row (CInt 2020) (CFloat (Finite 5))) \<le> sort_tuple (brazil_row (CInt 2019) CNull)"
    by simp
  with p clean_data_two_rows plain_tuple_le [OF p] show ?thesis
    by simp
qed

text \<open>
  Claim C7. When \<open>clean_data\<close> returns, every input row that has country, year and
  indicator name, and whose value does not convert to a number, is in the output with a
  null value (and its year cast to an integer); the output rows are exactly the converted
  forms of the input rows that have country, year and indicator name, each as often as it
  occurs: the rows that miss one of the three are dropped.
\<close>

theorem clean_data_nulls_bad_values:
  assumes "clean_data df = Inr out"
  shows "(\<forall>r \<in> set df. Country r \<noteq> None \<and> \<not> isna (Year r) \<and> Indicator_Name r \<noteq> None
              \<and> to_numeric (Value r) = CNull
            \<longrightarrow> clean_row r \<in> set out \<and> Value (clean_row r) = CNull)
     \<and> (\<forall>r' \<in> set out. \<exists>r \<in> set df. Country r \<noteq> None \<and> \<not> isna (Year r)
            \<and> Indicator_Name r \<noteq> None \<and> r' = clean_row r)
     \<and> mset out = mset (map clean_row (filter kept df))
     \<and> length out = length (filter kept df)"
proof -
  note out = clean_data_Inr [OF assms]
  have m: "mset out = mset (map clean_row (filter kept df))"
    unfolding out by simp
  have l: "length out = length (filter kept df)"
    unfolding out by simp
  have so: "set out = clean_row ` {r \<in> set df. kept r}"
    unfolding out by simp
  have a: "clean_row r \<in> set out \<and> Value (clean_row r) = CNull"
    if "r \<in> set df" "Country r \<noteq> None \<and> \<not> isna (Year r) \<and> Indicator_Name r \<noteq> None
              \<and> to_numeric (Value r) = CNull" for r
  proof -
    from that have "kept r" by (simp add: kept_def)
    with that(1) so have "clean_row r \<in> set out" by blast
    moreover from that(2) have "Value (clean_row r) = CNull"
      by (simp add: clean_row_def)
    ultimately show ?thesis by simp
  qed
  have b: "\<exists>r \<in> set df. Country r \<noteq> None \<and> \<not> isna (Year r)
            \<and> Indicator_Name r \<noteq> None \<and> r' = clean_row r" if "r' \<in> set out" for r'
  proof -
    from that so obtain r where "r \<in> set df" "kept r" "r' = clean_row r" by blast
    then show ?thesis unfolding kept_def by blast
  qed
  show ?thesis
  proof (intro conjI ballI impI)
    fix r
    assume "r \<in> set df" "Country r \<noteq> None \<and> \<not> isna (Year r) \<and> Indicator_Name r \<noteq> None
              \<and> to_numeric (Value r) = CNull"
    from a [OF this] show "clean_row r \<in> set out" "Value (clean_row r) = CNull"
      by simp_all
  next
    fix r'
    assume "r' \<in> set out"
    then show "\<exists>r \<in> set df. Country r \<noteq> None \<and> \<not> isna (Year r)
            \<and> Indicator_Name r \<noteq> None \<and> r' = clean_row r"
      by (rule b)
  qed (rule m, rule l)
qed

theorem clean_data_nulls_bad_values_witness:
  "clean_data [brazil_row (CInt 2020) (CStr ''n/a''), brazil_row CNull (CInt 7)]
     = Inr [brazil_row (CInt 2020) CNull]
   \<and> Country (brazil_row (CInt 2020) (CStr ''n/a'')) \<noteq> None
   \<and> \<not> isna (Year (brazil_row (CInt 2020) (CStr ''n/a'')))
   \<and> Indicator_Name (brazil_row (CInt 2020) (CStr ''n/a'')) \<noteq> None
   \<and> to_numeric (Value (brazil_row (CInt 2020) (CStr ''n/a''))) = CNull
   \<and> clean_row (brazil_row (CInt 2020) (CStr ''n/a'')) = brazil_row (CInt 2020) CNull
   \<and> isna (Year (brazil_row CNull (CInt 7)))
   \<and> length (filter kept [brazil_row (CInt 2020) (CStr ''n/a''), brazil_row CNull (CInt 7)]) = 1"
proof -
  have a: "to_numeric (CStr ''n/a'') = CNull"
    by code_simp
  have b: "clean_row (brazil_row (CInt 2020) (CStr ''n/a'')) = brazil_row (CInt 2020) CNull"
    by code_simp
  note t = clean_data_nulls_bad_values [OF clean_data_drop_example]
  have l: "length (filter kept [brazil_row (CInt 2020) (CStr ''n/a''), brazil_row CNull (CInt 7)]) = 1"
    using t [THEN conjunct2, THEN conjunct2, THEN conjunct2] by simp
  have c: "Country (brazil_row (CInt 2020) (CStr ''n/a'')) \<noteq> None
   \<and> \<not> isna (Year (brazil_row (CInt 2020) (CStr ''n/a'')))
   \<and> Indicator_Name (brazil_row (CInt 2020) (CStr ''n/a'')) \<noteq> None
   \<and> isna (Year (brazil_row CNull (CInt 7)))"
    by (simp add: brazil_row_def)
  have v: "to_numeric (Value (brazil_row (CInt 2020) (CStr ''n/a''))) = CNull"
    using a by (simp add: brazil_row_def del: to_numeric.simps)
  from clean_data_drop_example b c v l show ?thesis
    by blast
qed

section \<open>Records of the fund adapter\<close>




end
